theory Spec2Isabelle
  imports Complex_Main
begin

section \<open>Numbers and dates of the host language\<close>

text \<open>
  The calculators of \<^verbatim>\<open>frontend/src/lib/socialContributions.ts\<close> and
  \<^verbatim>\<open>frontend/src/lib/taxDeclarations.ts\<close> work on JavaScript numbers. Every finite
  double is a rational number, so amounts are modelled as \<^typ>\<open>rat\<close> with exact arithmetic:
  the rounding of the double operations is not modelled.

  A \<^verbatim>\<open>Date\<close> is its time value, the milliseconds since the epoch in UTC, as an
  \<^typ>\<open>int\<close>. The functions below follow the definitions of ECMA-262 (section
  "Date Objects"): \<^verbatim>\<open>Day\<close>, \<^verbatim>\<open>DayFromYear\<close>, \<^verbatim>\<open>YearFromTime\<close>,
  \<^verbatim>\<open>MonthFromTime\<close>, \<^verbatim>\<open>DateFromTime\<close>, \<^verbatim>\<open>MakeDay\<close>.
\<close>

definition msPerDay :: int where
  "msPerDay = 86400000"

definition Day :: "int \<Rightarrow> int" where
  "Day t = t div msPerDay"

definition TimeWithinDay :: "int \<Rightarrow> int" where
  "TimeWithinDay t = t mod msPerDay"

definition DaysInYear :: "int \<Rightarrow> int" where
  "DaysInYear y =
     (if y mod 4 \<noteq> 0 then 365
      else if y mod 100 \<noteq> 0 then 366
      else if y mod 400 \<noteq> 0 then 365
      else 366)"

definition DayFromYear :: "int \<Rightarrow> int" where
  "DayFromYear y =
     365 * (y - 1970) + (y - 1969) div 4 - (y - 1901) div 100 + (y - 1601) div 400"

text \<open>
  \<^verbatim>\<open>YearFromTime(t)\<close> is the largest year whose first day is not after \<open>t\<close>. The
  estimate from the mean length of a Gregorian year is off by at most one year, and is
  corrected against \<^const>\<open>DayFromYear\<close>.
\<close>

definition YearFromDay :: "int \<Rightarrow> int" where
  "YearFromDay d =
     (let y = 1970 + (d * 400) div 146097
      in if DayFromYear (y + 1) \<le> d then y + 1
         else if DayFromYear y \<le> d then y
         else y - 1)"

definition YearFromTime :: "int \<Rightarrow> int" where
  "YearFromTime t = YearFromDay (Day t)"

definition InLeapYear :: "int \<Rightarrow> int" where
  "InLeapYear t = (if DaysInYear (YearFromTime t) = 366 then 1 else 0)"

definition DayWithinYear :: "int \<Rightarrow> int" where
  "DayWithinYear t = Day t - DayFromYear (YearFromTime t)"

text \<open>The day of the year on which month \<open>m\<close> (0 to 11) starts; \<open>l\<close> is 1 in a leap year.\<close>

definition MonthStart :: "int \<Rightarrow> int \<Rightarrow> int" where
  "MonthStart m l =
     (if m = 0 then 0
      else if m = 1 then 31
      else if m = 2 then 59 + l
      else if m = 3 then 90 + l
      else if m = 4 then 120 + l
      else if m = 5 then 151 + l
      else if m = 6 then 181 + l
      else if m = 7 then 212 + l
      else if m = 8 then 243 + l
      else if m = 9 then 273 + l
      else if m = 10 then 304 + l
      else 334 + l)"

definition MonthFromTime :: "int \<Rightarrow> int" where
  "MonthFromTime t =
     (let d = DayWithinYear t; l = InLeapYear t
      in if d < 31 then 0
         else if d < 59 + l then 1
         else if d < 90 + l then 2
         else if d < 120 + l then 3
         else if d < 151 + l then 4
         else if d < 181 + l then 5
         else if d < 212 + l then 6
         else if d < 243 + l then 7
         else if d < 273 + l then 8
         else if d < 304 + l then 9
         else if d < 334 + l then 10
         else 11)"

definition DateFromTime :: "int \<Rightarrow> int" where
  "DateFromTime t = DayWithinYear t - MonthStart (MonthFromTime t) (InLeapYear t) + 1"

text \<open>
  \<^verbatim>\<open>MakeDay(year, month, date)\<close>: months beyond 11 carry into the year, and the day of
  the month is added as a plain offset, so that day 0 is the last day of the month before.
\<close>

definition MakeDay :: "int \<Rightarrow> int \<Rightarrow> int \<Rightarrow> int" where
  "MakeDay y m dt =
     (let ym = y + m div 12; mn = m mod 12
      in DayFromYear ym + MonthStart mn (if DaysInYear ym = 366 then 1 else 0) + dt - 1)"

text \<open>
  The host of the program: the current instant (\<^verbatim>\<open>new Date()\<close>) and the offset of its
  local time zone from UTC in milliseconds (\<^verbatim>\<open>LocalTZA\<close>, positive east of Greenwich),
  taken as constant over the dates of one call.
\<close>

record host =
  now :: int
  tza :: int

definition LocalTime :: "host \<Rightarrow> int \<Rightarrow> int" where
  "LocalTime h t = t + tza h"

definition UTC :: "host \<Rightarrow> int \<Rightarrow> int" where
  "UTC h t = t - tza h"

text \<open>\<^verbatim>\<open>new Date(year, month, day)\<close>: local midnight of that day, as a time value.\<close>

definition new_Date :: "host \<Rightarrow> int \<Rightarrow> int \<Rightarrow> int \<Rightarrow> int" where
  "new_Date h y m dt =
     (let yr = (if 0 \<le> y \<and> y \<le> 99 then 1900 + y else y)
      in UTC h (MakeDay yr m dt * msPerDay))"

definition getFullYear :: "host \<Rightarrow> int \<Rightarrow> int" where
  "getFullYear h t = YearFromTime (LocalTime h t)"

definition getMonth :: "host \<Rightarrow> int \<Rightarrow> int" where
  "getMonth h t = MonthFromTime (LocalTime h t)"

text \<open>\<^verbatim>\<open>d.setFullYear(y)\<close>: the local month, day and time of day are kept.\<close>

definition setFullYear :: "host \<Rightarrow> int \<Rightarrow> int \<Rightarrow> int" where
  "setFullYear h t y =
     (let lt = LocalTime h t
      in UTC h (MakeDay y (MonthFromTime lt) (DateFromTime lt) * msPerDay + TimeWithinDay lt))"

text \<open>
  \<^verbatim>\<open>d.toISOString().split('T')[0]\<close>: the calendar date of the instant in UTC, as
  (year, month 1 to 12, day), standing for the text \<^verbatim>\<open>YYYY-MM-DD\<close>.
\<close>

definition toISODate :: "int \<Rightarrow> int \<times> int \<times> int" where
  "toISODate t = (YearFromTime t, MonthFromTime t + 1, DateFromTime t)"

section \<open>Social contributions\<close>

datatype activity_type = Services | Commerce | Liberal

record SocialContributionRates =
  maladie :: rat
  retraite_base :: rat
  retraite_complementaire :: rat
  invalidite_deces :: rat
  csg_crds :: rat
  formation_professionnelle :: rat
  total :: rat

text \<open>
  The \<^verbatim>\<open>contributions\<close> object of a calculation has the fields of the rates, holding
  amounts, so it is the same record.
\<close>

record SocialContributionCalculation =
  revenue :: rat
  activity_type :: activity_type
  rates :: SocialContributionRates
  contributions :: SocialContributionRates
  net_revenue :: rat
  quarter :: string
  year :: int

definition SOCIAL_CONTRIBUTION_RATES_2024 :: "activity_type \<Rightarrow> SocialContributionRates" where
  "SOCIAL_CONTRIBUTION_RATES_2024 a =
     (case a of
        Services \<Rightarrow>
          \<lparr>maladie = 0.065, retraite_base = 0.1175, retraite_complementaire = 0.007,
           invalidite_deces = 0.0048, csg_crds = 0.0262, formation_professionnelle = 0.0025,
           total = 0.221\<rparr>
      | Commerce \<Rightarrow>
          \<lparr>maladie = 0.065, retraite_base = 0.1175, retraite_complementaire = 0.007,
           invalidite_deces = 0.0048, csg_crds = 0.0262, formation_professionnelle = 0.0011,
           total = 0.1286\<rparr>
      | Liberal \<Rightarrow>
          \<lparr>maladie = 0.065, retraite_base = 0.1175, retraite_complementaire = 0.007,
           invalidite_deces = 0.0048, csg_crds = 0.0262, formation_professionnelle = 0.0025,
           total = 0.221\<rparr>)"

definition FRANCHISE_THRESHOLDS_2024 :: "activity_type \<Rightarrow> rat" where
  "FRANCHISE_THRESHOLDS_2024 a =
     (case a of Services \<Rightarrow> 77700 | Commerce \<Rightarrow> 188700 | Liberal \<Rightarrow> 77700)"

text \<open>
  The only \<^verbatim>\<open>throw\<close> of the calculator. Its message interpolates the threshold and the
  activity type, which the error value carries.
\<close>

datatype calc_error = FranchiseExceeded rat activity_type

text \<open>The label \<^verbatim>\<open>`T${Math.ceil((new Date().getMonth() + 1) / 3)}`\<close>.\<close>

definition quarter_label :: "host \<Rightarrow> string" where
  "quarter_label h =
     (let q = (getMonth h (now h) + 1 + 2) div 3
      in CHR ''T'' # [char_of (48 + q)])"

definition calculateSocialContributions ::
  "host \<Rightarrow> rat \<Rightarrow> activity_type \<Rightarrow> int \<Rightarrow> calc_error + SocialContributionCalculation" where
  "calculateSocialContributions h revenue' activityType yr =
     (let rts = SOCIAL_CONTRIBUTION_RATES_2024 activityType;
          threshold = FRANCHISE_THRESHOLDS_2024 activityType
      in if revenue' > threshold then Inl (FranchiseExceeded threshold activityType)
         else
           let contribs =
                 \<lparr>maladie = revenue' * maladie rts,
                  retraite_base = revenue' * retraite_base rts,
                  retraite_complementaire = revenue' * retraite_complementaire rts,
                  invalidite_deces = revenue' * invalidite_deces rts,
                  csg_crds = revenue' * csg_crds rts,
                  formation_professionnelle = revenue' * formation_professionnelle rts,
                  total = revenue' * total rts\<rparr>
           in Inr \<lparr>revenue = revenue', activity_type = activityType, rates = rts,
                    contributions = contribs, net_revenue = revenue' - total contribs,
                    quarter = quarter_label h, year = yr\<rparr>)"

text \<open>The sum of the six contribution components of a calculation.\<close>

definition component_sum :: "SocialContributionRates \<Rightarrow> rat" where
  "component_sum c =
     maladie c + retraite_base c + retraite_complementaire c + invalidite_deces c
     + csg_crds c + formation_professionnelle c"

text \<open>
  The \<^verbatim>\<open>switch\<close> of \<^verbatim>\<open>calculateContributionsWithACRE\<close>: the reduction rate starts at 0
  and is set for the years 1, 2 and 3.
\<close>

definition reductionRate :: "int \<Rightarrow> rat" where
  "reductionRate acreYear =
     (if acreYear = 1 then 0.75
      else if acreYear = 2 then 0.50
      else if acreYear = 3 then 0.25
      else 0)"

definition calculateContributionsWithACRE ::
  "host \<Rightarrow> rat \<Rightarrow> activity_type \<Rightarrow> int \<Rightarrow> calc_error + SocialContributionCalculation" where
  "calculateContributionsWithACRE h revenue' activityType acreYear =
     (let r = reductionRate acreYear
      in case calculateSocialContributions h revenue' activityType (getFullYear h (now h)) of
           Inl e \<Rightarrow> Inl e
         | Inr standardCalculation \<Rightarrow>
             let c = contributions standardCalculation;
                 reducedContributions =
                   \<lparr>maladie = maladie c * (1 - r),
                    retraite_base = retraite_base c * (1 - r),
                    retraite_complementaire = retraite_complementaire c * (1 - r),
                    invalidite_deces = invalidite_deces c * (1 - r),
                    csg_crds = csg_crds c * (1 - r),
                    formation_professionnelle = formation_professionnelle c * (1 - r),
                    total = total c * (1 - r)\<rparr>
             in Inr (standardCalculation
                      \<lparr>contributions := reducedContributions,
                       net_revenue := revenue' - total reducedContributions\<rparr>))"

text \<open>
  \<^verbatim>\<open>checkACREEligibility(creationDate, hasReceivedACRE)\<close>. The result object has
  optional fields \<^verbatim>\<open>expiryDate\<close> and \<^verbatim>\<open>reducedRates\<close>: an absent field is \<open>None\<close>.
  Dates are compared by their time values.
\<close>

record ACREEligibility =
  eligible :: bool
  expiryDate :: "int option"
  reducedRates :: "SocialContributionRates option"

definition checkACREEligibility :: "host \<Rightarrow> int \<Rightarrow> bool \<Rightarrow> ACREEligibility" where
  "checkACREEligibility h creationDate hasReceivedACRE =
     (let today = now h;
          threeYearsAfterCreation =
            setFullYear h creationDate (getFullYear h creationDate + 3);
          is_eligible = (\<not> hasReceivedACRE \<and> today \<le> threeYearsAfterCreation)
      in if is_eligible
         then \<lparr>eligible = True, expiryDate = Some threeYearsAfterCreation,
               reducedRates =
                 Some \<lparr>maladie = 0.0325, retraite_base = 0.05875,
                       retraite_complementaire = 0.0035, invalidite_deces = 0.0024,
                       csg_crds = 0.0131, formation_professionnelle = 0.00125,
                       total = 0.1105\<rparr>\<rparr>
         else \<lparr>eligible = False, expiryDate = None, reducedRates = None\<rparr>)"

text \<open>
  \<^verbatim>\<open>saveQuarterlyDeclaration(userId, year, quarter, calculation)\<close> inserts one row into
  the table \<^verbatim>\<open>quarterly_declarations\<close> of the record store and returns the id that the
  store gives it, or throws the store's error. The function below is the row it hands to
  \<^verbatim>\<open>insert\<close>.
\<close>

datatype declaration_status = Draft | Submitted | Paid

record QuarterlyDeclarationRow =
  user_id :: string
  declaration_year :: int
  declaration_quarter :: int
  declaration_revenue :: rat
  declaration_contributions :: rat
  declaration_activity_type :: activity_type
  status :: declaration_status
  due_date :: "int \<times> int \<times> int"

definition saveQuarterlyDeclaration ::
  "host \<Rightarrow> string \<Rightarrow> int \<Rightarrow> int \<Rightarrow> SocialContributionCalculation \<Rightarrow> QuarterlyDeclarationRow" where
  "saveQuarterlyDeclaration h userId yr qtr calculation =
     (let dueMonth = (qtr * 3) + 1;
          dueDate = new_Date h yr dueMonth 0
      in \<lparr>user_id = userId, declaration_year = yr, declaration_quarter = qtr,
          declaration_revenue = revenue calculation,
          declaration_contributions = total (contributions calculation),
          declaration_activity_type = activity_type calculation,
          status = Draft,
          due_date = toISODate dueDate\<rparr>)"

section \<open>Income tax\<close>

text \<open>A bracket of the schedule; the upper bound \<^verbatim>\<open>Infinity\<close> of the last one is \<open>None\<close>.\<close>

record TaxBracket =
  bracket_min :: rat
  bracket_max :: "rat option"
  bracket_rate :: rat

record TaxBracketLine = TaxBracket +
  amount :: rat

datatype regime = Micro | Reel

record IncomeTaxData =
  income_revenue :: rat
  expenses :: rat
  net_result :: rat
  income_activity_type :: activity_type
  income_regime :: regime
  abattement :: rat
  taxable_income :: rat
  tax_brackets :: "TaxBracketLine list"
  total_tax :: rat

definition MICRO_ABATTEMENT_RATES :: "activity_type \<Rightarrow> rat" where
  "MICRO_ABATTEMENT_RATES a =
     (case a of Services \<Rightarrow> 0.50 | Commerce \<Rightarrow> 0.29 | Liberal \<Rightarrow> 0.34)"

definition INCOME_TAX_BRACKETS_2024 :: "TaxBracket list" where
  "INCOME_TAX_BRACKETS_2024 =
     [\<lparr>bracket_min = 0, bracket_max = Some 11294, bracket_rate = 0.00\<rparr>,
      \<lparr>bracket_min = 11294, bracket_max = Some 28797, bracket_rate = 0.11\<rparr>,
      \<lparr>bracket_min = 28797, bracket_max = Some 82341, bracket_rate = 0.30\<rparr>,
      \<lparr>bracket_min = 82341, bracket_max = Some 177106, bracket_rate = 0.41\<rparr>,
      \<lparr>bracket_min = 177106, bracket_max = None, bracket_rate = 0.45\<rparr>]"

text \<open>\<^verbatim>\<open>Math.min(x, bound)\<close> where the bound may be \<^verbatim>\<open>Infinity\<close>.\<close>

definition Math_min :: "rat \<Rightarrow> rat option \<Rightarrow> rat" where
  "Math_min x bound = (case bound of None \<Rightarrow> x | Some u \<Rightarrow> min x u)"

text \<open>
  The \<^verbatim>\<open>for\<close> loop of \<^verbatim>\<open>calculateIncomeTax\<close> over the remaining brackets, on the
  state (\<^verbatim>\<open>taxBrackets\<close>, \<^verbatim>\<open>totalTax\<close>); \<^verbatim>\<open>break\<close> returns the state.
\<close>

fun bracket_loop ::
  "rat \<Rightarrow> TaxBracket list \<Rightarrow> TaxBracketLine list \<times> rat \<Rightarrow> TaxBracketLine list \<times> rat" where
  "bracket_loop taxableIncome [] st = st"
| "bracket_loop taxableIncome (bracket # rest) (taxBrackets, totalTax) =
     (if taxableIncome \<le> bracket_min bracket then (taxBrackets, totalTax)
      else
        let taxableAmount = Math_min taxableIncome (bracket_max bracket) - bracket_min bracket;
            taxAmount = taxableAmount * bracket_rate bracket
        in bracket_loop taxableIncome rest
             (taxBrackets @
                [\<lparr>bracket_min = bracket_min bracket, bracket_max = bracket_max bracket,
                  bracket_rate = bracket_rate bracket, amount = taxAmount\<rparr>],
              totalTax + taxAmount))"

text \<open>
  \<^verbatim>\<open>calculateIncomeTax(revenue, activityType, parts)\<close>. With \<^verbatim>\<open>parts\<close> = 0 the
  JavaScript division gives an infinity or NaN, which the exact arithmetic of the model
  does not have: the theorems on this function keep \<open>parts\<close> away from 0.
\<close>

definition calculateIncomeTax :: "rat \<Rightarrow> activity_type \<Rightarrow> rat \<Rightarrow> IncomeTaxData" where
  "calculateIncomeTax revenue' activityType parts =
     (let abattementRate = MICRO_ABATTEMENT_RATES activityType;
          abattement' = revenue' * abattementRate;
          taxableIncome = (revenue' - abattement') / parts;
          (taxBrackets, totalTax) = bracket_loop taxableIncome INCOME_TAX_BRACKETS_2024 ([], 0)
      in \<lparr>income_revenue = revenue', expenses = 0, net_result = revenue',
          income_activity_type = activityType, income_regime = Micro,
          abattement = abattement', taxable_income = taxableIncome,
          tax_brackets = taxBrackets, total_tax = totalTax * parts\<rparr>)"

section \<open>Local business tax (CFE)\<close>

text \<open>The one exemption reason of the source, "Chiffre d'affaires inferieur a 5 000 EUR".\<close>

datatype exemption = Revenue_below_5000

record CFEData =
  cfe_revenue :: rat
  cfe_activity_type :: activity_type
  commune :: string
  surface_m2 :: "rat option"
  is_exempt :: bool
  exemption_reason :: "exemption option"
  base_amount :: rat
  tax_rate :: rat
  total_cfe :: rat

definition exemption_revenue :: rat where
  "exemption_revenue = 5000"

definition minimum_base :: rat where
  "minimum_base = 227"

definition maximum_base :: rat where
  "maximum_base = 7000"

text \<open>
  The optional surface is \<open>None\<close> when absent (\<^verbatim>\<open>undefined\<close>). The test
  \<^verbatim>\<open>if (surfaceM2)\<close> holds for a number other than 0.
\<close>

definition truthy :: "rat option \<Rightarrow> bool" where
  "truthy v = (case v of None \<Rightarrow> False | Some x \<Rightarrow> x \<noteq> 0)"

text \<open>
  \<^verbatim>\<open>calculateCFE(revenue, activityType, commune, surfaceM2?)\<close>: the base starts at
  \<^const>\<open>minimum_base\<close> and is overwritten from the surface or from the revenue.
\<close>

definition calculateCFE :: "rat \<Rightarrow> activity_type \<Rightarrow> string \<Rightarrow> rat option \<Rightarrow> CFEData" where
  "calculateCFE revenue' activityType commune' surfaceM2 =
     (let isExempt = (revenue' < exemption_revenue)
      in if isExempt
         then \<lparr>cfe_revenue = revenue', cfe_activity_type = activityType, commune = commune',
               surface_m2 = surfaceM2, is_exempt = True,
               exemption_reason = Some Revenue_below_5000,
               base_amount = 0, tax_rate = 0, total_cfe = 0\<rparr>
         else
           let baseAmount =
                 (if truthy surfaceM2 then min (the surfaceM2 * 16) maximum_base
                  else if revenue' > 32600 then min (revenue' * 0.005) maximum_base
                  else minimum_base);
               taxRate = 0.25;
               totalCFE = baseAmount * taxRate
           in \<lparr>cfe_revenue = revenue', cfe_activity_type = activityType, commune = commune',
               surface_m2 = surfaceM2, is_exempt = False, exemption_reason = None,
               base_amount = baseAmount, tax_rate = taxRate, total_cfe = totalCFE\<rparr>)"

section \<open>The bracket sum as the specification words it\<close>

text \<open>
  The specification describes the tax per part as a sum over the brackets whose lower bound
  is below the taxable income, each taxing the slice
  \<^verbatim>\<open>min(taxableIncome, upperBound) - lowerBound\<close> at its rate. These two definitions
  follow those words; \<^const>\<open>bracket_loop\<close> above follows the source.
\<close>

definition slice_tax :: "rat \<Rightarrow> TaxBracket \<Rightarrow> rat" where
  "slice_tax ti b = (Math_min ti (bracket_max b) - bracket_min b) * bracket_rate b"

definition spec_bracket_sum :: "rat \<Rightarrow> TaxBracket list \<Rightarrow> rat" where
  "spec_bracket_sum ti bs = sum_list (map (slice_tax ti) (filter (\<lambda>b. bracket_min b < ti) bs))"

text \<open>
  A schedule is well formed when its brackets ascend by lower bound, no rate is negative and
  no upper bound is below its lower bound. The tax of a bracket clipped at 0 is used to
  compare the tax of two incomes bracket by bracket.
\<close>

definition well_formed_brackets :: "TaxBracket list \<Rightarrow> bool" where
  "well_formed_brackets bs \<longleftrightarrow>
     sorted (map bracket_min bs)
     \<and> list_all (\<lambda>b. 0 \<le> bracket_rate b
                     \<and> (case bracket_max b of None \<Rightarrow> True | Some u \<Rightarrow> bracket_min b \<le> u)) bs"

definition clipped_tax :: "rat \<Rightarrow> TaxBracket \<Rightarrow> rat" where
  "clipped_tax ti b = max 0 (Math_min ti (bracket_max b) - bracket_min b) * bracket_rate b"

section \<open>Properties of the social contribution calculator\<close>

text \<open>
  Claim C2. \<^verbatim>\<open>calculateSocialContributions\<close> fails exactly when the revenue exceeds the
  franchise threshold of the activity type (77700 for services and liberal, 188700 for
  commerce); the error carries that threshold and the activity type, and no result is
  computed then. A revenue of 80000 for services raises the error.
\<close>

theorem franchise_exceeded_iff:
  "(isl (calculateSocialContributions h revenue' a y) \<longleftrightarrow> revenue' > FRANCHISE_THRESHOLDS_2024 a)
   \<and> (revenue' > FRANCHISE_THRESHOLDS_2024 a \<longrightarrow>
        calculateSocialContributions h revenue' a y
          = Inl (FranchiseExceeded (FRANCHISE_THRESHOLDS_2024 a) a))
   \<and> FRANCHISE_THRESHOLDS_2024 Services = 77700
   \<and> FRANCHISE_THRESHOLDS_2024 Commerce = 188700
   \<and> FRANCHISE_THRESHOLDS_2024 Liberal = 77700
   \<and> calculateSocialContributions h 80000 Services y = Inl (FranchiseExceeded 77700 Services)"
  by (simp add: calculateSocialContributions_def FRANCHISE_THRESHOLDS_2024_def Let_def)

theorem franchise_exceeded_iff_witness:
  "(80000::rat) > FRANCHISE_THRESHOLDS_2024 Services
   \<and> calculateSocialContributions \<lparr>now = 1730635200000, tza = 3600000\<rparr> 80000 Services 2024
       = Inl (FranchiseExceeded 77700 Services)"
  using franchise_exceeded_iff [of "\<lparr>now = 1730635200000, tza = 3600000\<rparr>" 80000 Services 2024]
  by (simp add: FRANCHISE_THRESHOLDS_2024_def)

text \<open>
  The net revenue of every result is the revenue minus the total. The total is the revenue
  times the \<^verbatim>\<open>total\<close> rate of the table, which is below the sum of the six rates for every
  activity type: for a positive revenue the six components add up to more than the total,
  by more than 0.9 percent of it.
\<close>

lemma net_revenue_is_revenue_minus_total:
  assumes "calculateSocialContributions h revenue' a y = Inr c"
  shows "net_revenue c = revenue' - total (contributions c)"
  using assms
  by (auto simp add: calculateSocialContributions_def Let_def split: if_splits)

lemma component_sum_exceeds_total:
  assumes "calculateSocialContributions h revenue' a y = Inr c" and "0 < revenue'"
  shows "component_sum (contributions c) - total (contributions c)
           > 0.009 * total (contributions c)"
proof -
  from assms(1) have c: "component_sum (contributions c)
                           = revenue' * component_sum (SOCIAL_CONTRIBUTION_RATES_2024 a)"
    and t: "total (contributions c) = revenue' * total (SOCIAL_CONTRIBUTION_RATES_2024 a)"
    by (auto simp add: calculateSocialContributions_def component_sum_def Let_def
        algebra_simps split: if_splits)
  have "component_sum (SOCIAL_CONTRIBUTION_RATES_2024 a) - total (SOCIAL_CONTRIBUTION_RATES_2024 a)
          > 0.009 * total (SOCIAL_CONTRIBUTION_RATES_2024 a)"
    by (cases a) (simp_all add: SOCIAL_CONTRIBUTION_RATES_2024_def component_sum_def)
  from this assms(2) have "revenue' * (0.009 * total (SOCIAL_CONTRIBUTION_RATES_2024 a))
          < revenue' * (component_sum (SOCIAL_CONTRIBUTION_RATES_2024 a)
                        - total (SOCIAL_CONTRIBUTION_RATES_2024 a))"
    by (rule mult_strict_left_mono)
  with c t show ?thesis
    by (simp add: algebra_simps)
qed

text \<open>
  Claim C1. The total of a result should be the sum of its six components. For a revenue
  of 30000 and services the six components add up to 6690, while the total, computed from
  the \<^verbatim>\<open>total\<close> rate 0.221 of the table, is 6630: the six rates of the table add up to
  0.223. The net revenue is the revenue minus that total, 23370.
\<close>

theorem services_total_not_component_sum:
  "map_sum id (\<lambda>c. (component_sum (contributions c), total (contributions c), net_revenue c))
     (calculateSocialContributions h 30000 Services y) = Inr (6690, 6630, 23370)"
  by (simp add: calculateSocialContributions_def FRANCHISE_THRESHOLDS_2024_def
      SOCIAL_CONTRIBUTION_RATES_2024_def component_sum_def Let_def)

text \<open>
  Claim C8 as stated: a negative revenue makes \<^verbatim>\<open>calculateSocialContributions\<close> fail.
  It does not: for a revenue of -100 the calculator returns a result with negative
  amounts.
\<close>

theorem negative_revenue_counterexample:
  "(-100::rat) < 0 \<and>
   calculateSocialContributions \<lparr>now = 1730635200000, tza = 3600000\<rparr> (-100) Services 2024
     = Inr \<lparr>revenue = -100, activity_type = Services,
            rates = SOCIAL_CONTRIBUTION_RATES_2024 Services,
            contributions =
              \<lparr>maladie = -6.5, retraite_base = -11.75, retraite_complementaire = -0.7,
               invalidite_deces = -0.48, csg_crds = -2.62, formation_professionnelle = -0.25,
               total = -22.1\<rparr>,
            net_revenue = -77.9, quarter = ''T4'', year = 2024\<rparr>"
  by code_simp

text \<open>
  Claim C8, amended. The calculator has no check of the sign of the revenue: for every
  negative revenue it returns a result, computed by the same formulas as for a positive
  one (each amount is the revenue times its rate, the net revenue is the revenue minus
  the total). Its only error is the franchise threshold.
\<close>

theorem negative_revenue_computes:
  assumes "revenue' < 0"
  shows "calculateSocialContributions h revenue' a y =
     Inr \<lparr>revenue = revenue', activity_type = a, rates = SOCIAL_CONTRIBUTION_RATES_2024 a,
          contributions =
            \<lparr>maladie = revenue' * maladie (SOCIAL_CONTRIBUTION_RATES_2024 a),
             retraite_base = revenue' * retraite_base (SOCIAL_CONTRIBUTION_RATES_2024 a),
             retraite_complementaire =
               revenue' * retraite_complementaire (SOCIAL_CONTRIBUTION_RATES_2024 a),
             invalidite_deces = revenue' * invalidite_deces (SOCIAL_CONTRIBUTION_RATES_2024 a),
             csg_crds = revenue' * csg_crds (SOCIAL_CONTRIBUTION_RATES_2024 a),
             formation_professionnelle =
               revenue' * formation_professionnelle (SOCIAL_CONTRIBUTION_RATES_2024 a),
             total = revenue' * total (SOCIAL_CONTRIBUTION_RATES_2024 a)\<rparr>,
          net_revenue = revenue' - revenue' * total (SOCIAL_CONTRIBUTION_RATES_2024 a),
          quarter = quarter_label h, year = y\<rparr>"
proof -
  have "0 < FRANCHISE_THRESHOLDS_2024 a"
    by (cases a) (simp_all add: FRANCHISE_THRESHOLDS_2024_def)
  with assms have "\<not> revenue' > FRANCHISE_THRESHOLDS_2024 a"
    by simp
  then show ?thesis
    by (simp add: calculateSocialContributions_def Let_def)
qed

theorem negative_revenue_computes_witness:
  "(-100::rat) < 0 \<and>
   map_sum id (\<lambda>c. (total (contributions c), net_revenue c))
     (calculateSocialContributions \<lparr>now = 1730635200000, tza = 3600000\<rparr> (-100) Commerce 2024)
     = Inr (-12.86, -87.14)"
  using negative_revenue_computes
          [of "-100" "\<lparr>now = 1730635200000, tza = 3600000\<rparr>" Commerce 2024]
  by (simp add: SOCIAL_CONTRIBUTION_RATES_2024_def)

text \<open>
  Claim C10. \<^verbatim>\<open>calculateContributionsWithACRE\<close> enforces the franchise threshold of the
  standard calculator: for a revenue above the threshold and an ACRE year of 1, 2 or 3 it
  fails with the error of the standard calculator, and no reduced result is computed.
\<close>

theorem acre_enforces_franchise_threshold:
  assumes "revenue' > FRANCHISE_THRESHOLDS_2024 a" and "acreYear \<in> {1, 2, 3}"
  shows "calculateContributionsWithACRE h revenue' a acreYear
           = Inl (FranchiseExceeded (FRANCHISE_THRESHOLDS_2024 a) a)
         \<and> calculateContributionsWithACRE h revenue' a acreYear
           = calculateSocialContributions h revenue' a (getFullYear h (now h))"
  using assms
  by (simp add: calculateContributionsWithACRE_def calculateSocialContributions_def Let_def)

theorem acre_enforces_franchise_threshold_witness:
  "(200000::rat) > FRANCHISE_THRESHOLDS_2024 Commerce \<and> (2::int) \<in> {1, 2, 3}
   \<and> calculateContributionsWithACRE \<lparr>now = 1730635200000, tza = 3600000\<rparr> 200000 Commerce 2
       = Inl (FranchiseExceeded 188700 Commerce)"
  using acre_enforces_franchise_threshold
          [of Commerce 200000 2 "\<lparr>now = 1730635200000, tza = 3600000\<rparr>"]
  by (simp add: FRANCHISE_THRESHOLDS_2024_def)

text \<open>
  Claim C5. For a revenue from 0 up to the franchise threshold and an ACRE year of 1, 2 or
  3, \<^verbatim>\<open>calculateContributionsWithACRE\<close> returns the standard result with each of the six
  components and the total multiplied by 1 minus the reduction rate (0.75, 0.50, 0.25 for
  the years 1, 2, 3), and the net revenue recomputed as the revenue minus the reduced
  total; in year 1 the total is a quarter of the standard total.
\<close>

theorem acre_scales_standard:
  assumes "0 \<le> revenue'" and "revenue' \<le> FRANCHISE_THRESHOLDS_2024 a" and "acreYear \<in> {1, 2, 3}"
  shows "\<exists>std acre.
           calculateSocialContributions h revenue' a (getFullYear h (now h)) = Inr std
         \<and> calculateContributionsWithACRE h revenue' a acreYear = Inr acre
         \<and> maladie (contributions acre)
             = maladie (contributions std) * (1 - reductionRate acreYear)
         \<and> retraite_base (contributions acre)
             = retraite_base (contributions std) * (1 - reductionRate acreYear)
         \<and> retraite_complementaire (contributions acre)
             = retraite_complementaire (contributions std) * (1 - reductionRate acreYear)
         \<and> invalidite_deces (contributions acre)
             = invalidite_deces (contributions std) * (1 - reductionRate acreYear)
         \<and> csg_crds (contributions acre)
             = csg_crds (contributions std) * (1 - reductionRate acreYear)
         \<and> formation_professionnelle (contributions acre)
             = formation_professionnelle (contributions std) * (1 - reductionRate acreYear)
         \<and> total (contributions acre)
             = total (contributions std) * (1 - reductionRate acreYear)
         \<and> net_revenue acre = revenue' - total (contributions acre)
         \<and> revenue acre = revenue std \<and> activity_type acre = activity_type std
         \<and> rates acre = rates std \<and> quarter acre = quarter std \<and> year acre = year std
         \<and> reductionRate acreYear
             = (if acreYear = 1 then 0.75 else if acreYear = 2 then 0.50 else 0.25)
         \<and> (acreYear = 1 \<longrightarrow>
              total (contributions acre) = total (contributions std) * 0.25)"
proof -
  from assms(2) have below: "\<not> revenue' > FRANCHISE_THRESHOLDS_2024 a"
    by simp
  from assms(3) have yr: "acreYear = 1 \<or> acreYear = 2 \<or> acreYear = 3"
    by simp
  from below yr show ?thesis
    by (auto simp add: calculateContributionsWithACRE_def calculateSocialContributions_def
        reductionRate_def Let_def)
qed

theorem acre_scales_standard_witness:
  "(0::rat) \<le> 30000 \<and> 30000 \<le> FRANCHISE_THRESHOLDS_2024 Services \<and> (1::int) \<in> {1, 2, 3}
   \<and> map_sum id (\<lambda>c. (total (contributions c), net_revenue c))
        (calculateSocialContributions \<lparr>now = 1730635200000, tza = 3600000\<rparr> 30000 Services
           (getFullYear \<lparr>now = 1730635200000, tza = 3600000\<rparr> 1730635200000))
       = Inr (6630, 23370)
   \<and> map_sum id (\<lambda>c. (total (contributions c), net_revenue c))
        (calculateContributionsWithACRE \<lparr>now = 1730635200000, tza = 3600000\<rparr> 30000 Services 1)
       = Inr (1657.5, 28342.5)"
  using acre_scales_standard [of 30000 Services 1 "\<lparr>now = 1730635200000, tza = 3600000\<rparr>"]
  by (auto simp add: FRANCHISE_THRESHOLDS_2024_def calculateSocialContributions_def SOCIAL_CONTRIBUTION_RATES_2024_def Let_def)

section \<open>Properties of the income tax calculator\<close>

text \<open>The loop of the source computes the sum that the specification describes.\<close>

lemma brackets_2024_well_formed: "well_formed_brackets INCOME_TAX_BRACKETS_2024"
  by (simp add: well_formed_brackets_def INCOME_TAX_BRACKETS_2024_def)

lemma spec_bracket_sum_none:
  assumes "\<forall>b \<in> set bs. ti \<le> bracket_min b"
  shows "spec_bracket_sum ti bs = 0"
proof -
  from assms have "filter (\<lambda>b. bracket_min b < ti) bs = []"
    by (auto simp add: filter_empty_conv)
  then show ?thesis
    by (simp add: spec_bracket_sum_def)
qed

lemma bracket_loop_total:
  assumes "sorted (map bracket_min bs)"
  shows "snd (bracket_loop ti bs (ls, t)) = t + spec_bracket_sum ti bs"
  using assms
proof (induction bs arbitrary: ls t)
  case Nil
  show ?case by (simp add: spec_bracket_sum_def)
next
  case (Cons b bs)
  show ?case
  proof (cases "ti \<le> bracket_min b")
    case True
    with Cons.prems have "\<forall>c \<in> set (b # bs). ti \<le> bracket_min c"
      by auto
    then have "spec_bracket_sum ti (b # bs) = 0"
      by (rule spec_bracket_sum_none)
    with True show ?thesis by simp
  next
    case False
    from Cons.prems have "sorted (map bracket_min bs)" by simp
    then have "snd (bracket_loop ti bs
                 (ls @ [\<lparr>bracket_min = bracket_min b, bracket_max = bracket_max b,
                         bracket_rate = bracket_rate b, amount = slice_tax ti b\<rparr>],
                  t + slice_tax ti b))
               = (t + slice_tax ti b) + spec_bracket_sum ti bs"
      by (rule Cons.IH)
    with False show ?thesis
      by (simp add: Let_def slice_tax_def spec_bracket_sum_def)
  qed
qed

lemma total_tax_bracket_sum:
  "total_tax (calculateIncomeTax r a p)
     = spec_bracket_sum (taxable_income (calculateIncomeTax r a p)) INCOME_TAX_BRACKETS_2024 * p"
proof -
  have "sorted (map bracket_min INCOME_TAX_BRACKETS_2024)"
    by (simp add: INCOME_TAX_BRACKETS_2024_def)
  then have "snd (bracket_loop ((r - r * MICRO_ABATTEMENT_RATES a) / p) INCOME_TAX_BRACKETS_2024 ([], 0))
    = 0 + spec_bracket_sum ((r - r * MICRO_ABATTEMENT_RATES a) / p) INCOME_TAX_BRACKETS_2024"
    by (rule bracket_loop_total)
  then show ?thesis
    by (simp add: calculateIncomeTax_def Let_def split_def)
qed

lemma taxable_income_eq:
  "taxable_income (calculateIncomeTax r a p) = (r - r * MICRO_ABATTEMENT_RATES a) / p"
  by (simp add: calculateIncomeTax_def Let_def split_def)

lemma spec_bracket_sum_clipped:
  assumes "list_all (\<lambda>b. case bracket_max b of None \<Rightarrow> True | Some u \<Rightarrow> bracket_min b \<le> u) bs"
  shows "spec_bracket_sum ti bs = sum_list (map (clipped_tax ti) bs)"
  using assms
proof (induction bs)
  case Nil
  show ?case by (simp add: spec_bracket_sum_def)
next
  case (Cons b bs)
  then have IH: "spec_bracket_sum ti bs = sum_list (map (clipped_tax ti) bs)"
    by simp
  from Cons.prems have wf: "case bracket_max b of None \<Rightarrow> True | Some u \<Rightarrow> bracket_min b \<le> u"
    by simp
  have "(if bracket_min b < ti then slice_tax ti b else 0) = clipped_tax ti b"
    using wf by (auto simp add: slice_tax_def clipped_tax_def Math_min_def split: option.splits)
  with IH show ?case
    by (auto simp add: spec_bracket_sum_def split: if_splits)
qed

lemma clipped_tax_mono:
  assumes "ti1 \<le> ti2" and "0 \<le> bracket_rate b"
  shows "clipped_tax ti1 b \<le> clipped_tax ti2 b"
proof -
  from assms(1) have "Math_min ti1 (bracket_max b) \<le> Math_min ti2 (bracket_max b)"
    by (auto simp add: Math_min_def split: option.splits)
  then have "max 0 (Math_min ti1 (bracket_max b) - bracket_min b)
             \<le> max 0 (Math_min ti2 (bracket_max b) - bracket_min b)"
    by simp
  from this assms(2) show ?thesis
    unfolding clipped_tax_def by (rule mult_right_mono)
qed

lemma spec_bracket_sum_mono:
  assumes "well_formed_brackets bs" and "ti1 \<le> ti2"
  shows "spec_bracket_sum ti1 bs \<le> spec_bracket_sum ti2 bs"
proof -
  from assms(1) have wf: "list_all (\<lambda>b. case bracket_max b of None \<Rightarrow> True | Some u \<Rightarrow> bracket_min b \<le> u) bs"
    and rates: "\<forall>b \<in> set bs. 0 \<le> bracket_rate b"
    by (auto simp add: well_formed_brackets_def list_all_iff)
  from rates assms(2) have "sum_list (map (clipped_tax ti1) bs) \<le> sum_list (map (clipped_tax ti2) bs)"
    by (intro sum_list_mono clipped_tax_mono) auto
  with wf show ?thesis
    by (simp add: spec_bracket_sum_clipped)
qed

lemma abatement_below_one: "0 \<le> 1 - MICRO_ABATTEMENT_RATES a"
  by (cases a) (simp_all add: MICRO_ABATTEMENT_RATES_def)

text \<open>
  Claim C3. For a revenue of at least 0 and at least one part, the taxable income is the
  revenue minus the abatement (50% for services, 29% for commerce, 34% for liberal), divided
  by the parts, and the total tax is the bracket sum of the taxable income multiplied by
  the parts. For 30000 of services and one part: abatement 15000, taxable income 15000,
  total tax 407.66.
\<close>

theorem income_tax_formula:
  assumes "0 \<le> revenue'" and "1 \<le> parts"
  shows "taxable_income (calculateIncomeTax revenue' a parts)
           = (revenue' - revenue' * MICRO_ABATTEMENT_RATES a) / parts
         \<and> abattement (calculateIncomeTax revenue' a parts) = revenue' * MICRO_ABATTEMENT_RATES a
         \<and> MICRO_ABATTEMENT_RATES Services = 0.50
         \<and> MICRO_ABATTEMENT_RATES Commerce = 0.29
         \<and> MICRO_ABATTEMENT_RATES Liberal = 0.34
         \<and> total_tax (calculateIncomeTax revenue' a parts)
             = spec_bracket_sum (taxable_income (calculateIncomeTax revenue' a parts))
                 INCOME_TAX_BRACKETS_2024 * parts
         \<and> abattement (calculateIncomeTax 30000 Services 1) = 15000
         \<and> taxable_income (calculateIncomeTax 30000 Services 1) = 15000
         \<and> total_tax (calculateIncomeTax 30000 Services 1) = 407.66"
proof -
  have "abattement (calculateIncomeTax revenue' a parts) = revenue' * MICRO_ABATTEMENT_RATES a"
    by (simp add: calculateIncomeTax_def Let_def split_def)
  moreover have "abattement (calculateIncomeTax 30000 Services 1) = 15000"
    by (simp add: calculateIncomeTax_def Let_def split_def MICRO_ABATTEMENT_RATES_def)
  moreover have "taxable_income (calculateIncomeTax 30000 Services 1) = 15000"
    by (simp add: taxable_income_eq MICRO_ABATTEMENT_RATES_def)
  moreover have "total_tax (calculateIncomeTax 30000 Services 1) = 407.66"
    by (simp add: total_tax_bracket_sum taxable_income_eq MICRO_ABATTEMENT_RATES_def
        spec_bracket_sum_def slice_tax_def INCOME_TAX_BRACKETS_2024_def Math_min_def)
  ultimately show ?thesis
    by (simp add: taxable_income_eq total_tax_bracket_sum MICRO_ABATTEMENT_RATES_def)
qed

theorem income_tax_formula_witness:
  "(0::rat) \<le> 60000 \<and> (1::rat) \<le> 2
   \<and> taxable_income (calculateIncomeTax 60000 Services 2) = 15000
   \<and> total_tax (calculateIncomeTax 60000 Services 2) = 815.32"
  using income_tax_formula [of 60000 2 Services]
  by (simp add: MICRO_ABATTEMENT_RATES_def
        spec_bracket_sum_def slice_tax_def INCOME_TAX_BRACKETS_2024_def Math_min_def)

text \<open>
  Claim C4. For a fixed activity type and fixed parts (not 0), the total tax does not
  decrease when the revenue grows from a revenue of at least 0.
\<close>

theorem income_tax_monotone:
  assumes "0 \<le> revenue1" and "revenue1 \<le> revenue2" and "parts \<noteq> 0"
  shows "total_tax (calculateIncomeTax revenue1 a parts)
           \<le> total_tax (calculateIncomeTax revenue2 a parts)"
proof (cases "0 < parts")
  case True
  have "revenue1 * (1 - MICRO_ABATTEMENT_RATES a) \<le> revenue2 * (1 - MICRO_ABATTEMENT_RATES a)"
    using assms(2) abatement_below_one by (rule mult_right_mono)
  then have "(revenue1 - revenue1 * MICRO_ABATTEMENT_RATES a) / parts
             \<le> (revenue2 - revenue2 * MICRO_ABATTEMENT_RATES a) / parts"
    using True by (simp add: divide_right_mono algebra_simps)
  then have "spec_bracket_sum (taxable_income (calculateIncomeTax revenue1 a parts)) INCOME_TAX_BRACKETS_2024
             \<le> spec_bracket_sum (taxable_income (calculateIncomeTax revenue2 a parts)) INCOME_TAX_BRACKETS_2024"
    by (simp add: taxable_income_eq spec_bracket_sum_mono brackets_2024_well_formed)
  with True show ?thesis
    by (simp add: total_tax_bracket_sum)
next
  case False
  with assms(3) have neg: "parts < 0" by simp
  have zero: "spec_bracket_sum (taxable_income (calculateIncomeTax r a parts)) INCOME_TAX_BRACKETS_2024 = 0"
    if "0 \<le> r" for r
  proof -
    from that have "0 \<le> r * (1 - MICRO_ABATTEMENT_RATES a)"
      using abatement_below_one by simp
    with neg have "(r - r * MICRO_ABATTEMENT_RATES a) / parts \<le> 0"
      by (simp add: divide_nonneg_neg algebra_simps)
    then have "\<forall>b \<in> set INCOME_TAX_BRACKETS_2024.
                 taxable_income (calculateIncomeTax r a parts) \<le> bracket_min b"
      by (simp add: taxable_income_eq INCOME_TAX_BRACKETS_2024_def)
    then show ?thesis
      by (rule spec_bracket_sum_none)
  qed
  from assms have "0 \<le> revenue2" by simp
  with assms(1) show ?thesis
    by (simp add: total_tax_bracket_sum zero)
qed

theorem income_tax_monotone_witness:
  "(0::rat) \<le> 30000 \<and> (30000::rat) \<le> 60000 \<and> (1::rat) \<noteq> 0
   \<and> total_tax (calculateIncomeTax 30000 Services 1)
       \<le> total_tax (calculateIncomeTax 60000 Services 1)"
  using income_tax_monotone [of 30000 60000 1 Services]
  by simp

section \<open>Properties of the CFE calculator\<close>

text \<open>
  What \<^verbatim>\<open>calculateCFE\<close> computes for a revenue that is not exempt: the base from the
  surface or from the revenue, never above the maximum base, and a quarter of it as tax.
\<close>

lemma calculateCFE_base:
  assumes "exemption_revenue \<le> revenue'"
  shows "base_amount (calculateCFE revenue' a c s)
           = (if truthy s then min (the s * 16) maximum_base
              else if revenue' > 32600 then min (revenue' * 0.005) maximum_base
              else minimum_base)"
    and "base_amount (calculateCFE revenue' a c s) \<le> maximum_base"
    and "total_cfe (calculateCFE revenue' a c s) = base_amount (calculateCFE revenue' a c s) * 0.25"
    and "tax_rate (calculateCFE revenue' a c s) = 0.25"
  using assms
  by (simp_all add: calculateCFE_def Let_def minimum_base_def maximum_base_def)

text \<open>
  Claim C7. The base of a revenue that is not exempt should lie between the minimum base
  227 and the maximum base 7000. For a revenue of 40000 without a surface the base is
  40000 * 0.005 = 200, and for a surface of 10 square metres it is 160: both are below the
  minimum base.
\<close>

theorem cfe_base_below_minimum:
  "base_amount (calculateCFE 40000 Services ''Paris'' None) = 200
   \<and> total_cfe (calculateCFE 40000 Services ''Paris'' None) = 50
   \<and> is_exempt (calculateCFE 40000 Services ''Paris'' None) = False
   \<and> base_amount (calculateCFE 40000 Services ''Paris'' (Some 10)) = 160
   \<and> minimum_base = 227"
  by (simp add: calculateCFE_def exemption_revenue_def minimum_base_def maximum_base_def
      truthy_def Let_def)

section \<open>Properties of the ACRE eligibility check\<close>

text \<open>
  Moving a date three years on with \<^verbatim>\<open>setFullYear\<close> keeps the month and the day:
  15 January 2023 becomes 15 January 2026. The 29th of February 2024, which 2027 does not
  have, becomes 1 March 2027.
\<close>

lemma setFullYear_examples:
  "toISODate 1673740800000 = (2023, 1, 15)
   \<and> toISODate (setFullYear \<lparr>now = t, tza = 3600000\<rparr> 1673740800000 2026) = (2026, 1, 15)
   \<and> toISODate 1709208000000 = (2024, 2, 29)
   \<and> toISODate (setFullYear \<lparr>now = t, tza = 3600000\<rparr> 1709208000000 2027) = (2027, 3, 1)"
  by code_simp

text \<open>
  Claim C6 as stated: the result always holds the expiry date, three years after the
  creation date, also when it is not eligible. It does not: on 3 November 2024, for a
  business created on 15 January 2023 that has already received ACRE, the result is
  \<^verbatim>\<open>{ eligible: false }\<close>, without the expiry date of 15 January 2026.
\<close>

theorem acre_expiry_absent_counterexample:
  "checkACREEligibility \<lparr>now = 1730635200000, tza = 3600000\<rparr> 1673740800000 True
     = \<lparr>eligible = False, expiryDate = None, reducedRates = None\<rparr>
   \<and> setFullYear \<lparr>now = 1730635200000, tza = 3600000\<rparr> 1673740800000
         (getFullYear \<lparr>now = 1730635200000, tza = 3600000\<rparr> 1673740800000 + 3)
       = 1768435200000"
  by code_simp

text \<open>
  Claim C6, amended. The result is eligible exactly when ACRE has not been received and
  today is not after the creation date moved three years on (\<^verbatim>\<open>setFullYear\<close> of the
  creation year plus 3). It holds that date as expiry date exactly when it is eligible;
  a result that is not eligible has no expiry date.
\<close>

theorem acre_eligibility:
  "eligible (checkACREEligibility h creationDate hasReceivedACRE)
     = (\<not> hasReceivedACRE
        \<and> now h \<le> setFullYear h creationDate (getFullYear h creationDate + 3))
   \<and> expiryDate (checkACREEligibility h creationDate hasReceivedACRE)
     = (if eligible (checkACREEligibility h creationDate hasReceivedACRE)
        then Some (setFullYear h creationDate (getFullYear h creationDate + 3))
        else None)"
  by (simp add: checkACREEligibility_def Let_def)

section \<open>Properties of the calendar functions\<close>

text \<open>
  \<^const>\<open>YearFromDay\<close> is the year of ECMA-262: the year whose first day is at or before
  the day and whose successor starts after it. From it follow the year, the month and the
  day of the month of any instant whose day number is known relative to the start of a year.
\<close>

lemma int_div_bounds:
  fixes x k :: int
  assumes "0 < k"
  shows "k * (x div k) \<le> x" and "x < k * (x div k) + k"
proof -
  have "k * (x div k) + x mod k = x"
    by (rule mult_div_mod_eq)
  moreover from assms have "0 \<le> x mod k" and "x mod k < k"
    by simp_all
  ultimately show "k * (x div k) \<le> x" and "x < k * (x div k) + k"
    by linarith+
qed

lemma div_step:
  fixes x k :: int
  assumes "0 < k"
  shows "(x + 1) div k = (if (x + 1) mod k = 0 then x div k + 1 else x div k)"
proof -
  have x: "k * (x div k) + x mod k = x"
    by (rule mult_div_mod_eq)
  from assms have r: "0 \<le> x mod k" "x mod k < k"
    by simp_all
  show ?thesis
  proof (cases "x mod k + 1 = k")
    case True
    have "k * (x div k + 1) = k * (x div k) + k"
      by (simp add: algebra_simps)
    with x True have eq: "x + 1 = k * (x div k + 1) + 0"
      by linarith
    have "(x + 1) div k = x div k + 1"
      by (rule int_div_pos_eq [OF eq]) (use assms in simp_all)
    moreover have "(x + 1) mod k = 0"
      by (rule int_mod_pos_eq [OF eq]) (use assms in simp_all)
    ultimately show ?thesis by simp
  next
    case False
    from x have eq: "x + 1 = k * (x div k) + (x mod k + 1)"
      by linarith
    from False r have bounds: "0 \<le> x mod k + 1" "x mod k + 1 < k"
      by simp_all
    from eq bounds have "(x + 1) div k = x div k"
      by (rule int_div_pos_eq)
    moreover from eq bounds have "(x + 1) mod k = x mod k + 1"
      by (rule int_mod_pos_eq)
    ultimately show ?thesis using r by simp
  qed
qed

lemma DayFromYear_bounds:
  "146097 * (y - 1970) - 506 \<le> 400 * DayFromYear y
   \<and> 400 * DayFromYear y \<le> 146097 * (y - 1970) + 589"
proof -
  define a where "a = (y - 1969) div 4"
  define b where "b = (y - 1901) div 100"
  define c where "c = (y - 1601) div 400"
  have a: "4 * a \<le> y - 1969" "y - 1969 < 4 * a + 4"
    unfolding a_def by (rule int_div_bounds, simp)+
  have b: "100 * b \<le> y - 1901" "y - 1901 < 100 * b + 100"
    unfolding b_def by (rule int_div_bounds, simp)+
  have c: "400 * c \<le> y - 1601" "y - 1601 < 400 * c + 400"
    unfolding c_def by (rule int_div_bounds, simp)+
  have "DayFromYear y = 365 * (y - 1970) + a - b + c"
    by (simp add: DayFromYear_def a_def b_def c_def)
  then have "400 * DayFromYear y = 146000 * (y - 1970) + 400 * a - 400 * b + 400 * c"
    by simp
  with a b c show ?thesis
    by auto
qed


lemma mod_shift:
  fixes y :: int
  shows "(y - n * k) mod k = y mod k"
proof -
  have "(y + (- n) * k) mod k = y mod k"
    by (rule mod_mult_self1)
  then show ?thesis by simp
qed

lemma div_step_year:
  fixes y :: int
  assumes "0 < k"
  shows "(y - (n * k + 1) + 1) div k = (y - (n * k + 1)) div k + (if y mod k = 0 then 1 else 0)"
proof -
  have "(y - (n * k + 1) + 1) mod k = (y - n * k) mod k"
    by simp
  then have "(y - (n * k + 1) + 1) mod k = y mod k"
    by (simp only: mod_shift)
  with div_step [OF assms, of "y - (n * k + 1)"] show ?thesis
    by simp
qed

lemma DayFromYear_next: "DayFromYear (y + 1) = DayFromYear y + DaysInYear y"
proof -
  have a: "(y - 1968) div 4 = (y - 1969) div 4 + (if y mod 4 = 0 then 1 else 0)"
    using div_step_year [of 4 y 492] by simp
  have b: "(y - 1900) div 100 = (y - 1901) div 100 + (if y mod 100 = 0 then 1 else 0)"
    using div_step_year [of 100 y 19] by simp
  have c: "(y - 1600) div 400 = (y - 1601) div 400 + (if y mod 400 = 0 then 1 else 0)"
    using div_step_year [of 400 y 4] by simp
  have m1: "y mod 100 = 0" if "y mod 400 = 0"
  proof -
    have "y mod 400 mod 100 = y mod 100"
      by (rule mod_mod_cancel) simp
    with that show ?thesis by simp
  qed
  have m2: "y mod 4 = 0" if "y mod 100 = 0"
  proof -
    have "y mod 100 mod 4 = y mod 4"
      by (rule mod_mod_cancel) simp
    with that show ?thesis by simp
  qed
  have "DayFromYear (y + 1)
          = 365 * (y - 1969) + (y - 1968) div 4 - (y - 1900) div 100 + (y - 1600) div 400"
    by (simp add: DayFromYear_def)
  also have "\<dots> = DayFromYear y + DaysInYear y"
    using m1 m2 by (simp add: a b c DayFromYear_def DaysInYear_def)
  finally show ?thesis .
qed


lemma DaysInYear_pos: "0 < DaysInYear y"
  by (simp add: DaysInYear_def)

lemma DayFromYear_mono:
  assumes "y \<le> z"
  shows "DayFromYear y \<le> DayFromYear z"
  using assms
proof (induction z rule: int_ge_induct)
  case base
  show ?case by simp
next
  case (step i)
  have "DayFromYear i < DayFromYear (i + 1)"
    using DaysInYear_pos [of i] by (simp add: DayFromYear_next)
  with step.IH show ?case by simp
qed

lemma YearFromDay_bounds:
  "DayFromYear (YearFromDay d) \<le> d \<and> d < DayFromYear (YearFromDay d + 1)"
proof -
  define e where "e = (d * 400) div 146097"
  have e: "146097 * e \<le> d * 400" "d * 400 < 146097 * e + 146097"
    unfolding e_def by (rule int_div_bounds, simp)+
  have lo: "400 * DayFromYear (1970 + e - 1) \<le> 146097 * (e - 1) + 589"
    using DayFromYear_bounds [of "1970 + e - 1"] by simp
  have hi: "146097 * (e + 2) - 506 \<le> 400 * DayFromYear (1970 + e + 1 + 1)"
    using DayFromYear_bounds [of "1970 + e + 1 + 1"] by simp
  from lo e have below: "DayFromYear (1970 + e - 1) \<le> d"
    by simp
  from hi e have above: "d < DayFromYear (1970 + e + 1 + 1)"
    by simp
  from below above show ?thesis
    by (auto simp add: YearFromDay_def Let_def e_def [symmetric])
qed

lemma YearFromDay_unique:
  assumes "DayFromYear y \<le> d" and "d < DayFromYear (y + 1)"
  shows "YearFromDay d = y"
proof (rule ccontr)
  assume neq: "YearFromDay d \<noteq> y"
  note b = YearFromDay_bounds [of d]
  show False
  proof (cases "YearFromDay d < y")
    case True
    then have "DayFromYear (YearFromDay d + 1) \<le> DayFromYear y"
      by (intro DayFromYear_mono) simp
    with b assms(1) show False by simp
  next
    case False
    with neq have "DayFromYear (y + 1) \<le> DayFromYear (YearFromDay d)"
      by (intro DayFromYear_mono) simp
    with b assms(2) show False by simp
  qed
qed

lemma fields_of_day:
  assumes "Day t = DayFromYear y + k" and "0 \<le> k" and "k < DaysInYear y"
  shows "YearFromTime t = y"
    and "DayWithinYear t = k"
    and "InLeapYear t = (if DaysInYear y = 366 then 1 else 0)"
proof -
  from assms have "DayFromYear y \<le> Day t" and "Day t < DayFromYear (y + 1)"
    by (simp_all add: DayFromYear_next)
  then show y: "YearFromTime t = y"
    unfolding YearFromTime_def by (rule YearFromDay_unique)
  from y assms(1) show "DayWithinYear t = k"
    by (simp add: DayWithinYear_def)
  from y show "InLeapYear t = (if DaysInYear y = 366 then 1 else 0)"
    by (simp add: InLeapYear_def)
qed

lemma Day_of_local_midnight_west:
  assumes "- msPerDay < z" and "z \<le> 0"
  shows "Day (D * msPerDay - z) = D"
proof -
  have "D * msPerDay - z = msPerDay * D + (- z)"
    by simp
  moreover from assms have "0 \<le> - z" and "- z < msPerDay"
    by simp_all
  ultimately show ?thesis
    unfolding Day_def by (rule int_div_pos_eq)
qed

lemma Day_of_local_midnight_east:
  assumes "0 < z" and "z \<le> msPerDay"
  shows "Day (D * msPerDay - z) = D - 1"
proof -
  have "D * msPerDay - z = msPerDay * (D - 1) + (msPerDay - z)"
    by (simp add: algebra_simps)
  moreover from assms have "0 \<le> msPerDay - z" and "msPerDay - z < msPerDay"
    by simp_all
  ultimately show ?thesis
    unfolding Day_def by (rule int_div_pos_eq)
qed


lemma DaysInYear_cases: "DaysInYear y = 365 \<or> DaysInYear y = 366"
  by (simp add: DaysInYear_def)

lemma toISODate_of_day:
  assumes "Day t = DayFromYear y + k" and "0 \<le> k" and "k < DaysInYear y"
  shows "toISODate t =
           (let l = (if DaysInYear y = 366 then 1 else 0);
                m = (if k < 31 then 0
                     else if k < 59 + l then 1
                     else if k < 90 + l then 2
                     else if k < 120 + l then 3
                     else if k < 151 + l then 4
                     else if k < 181 + l then 5
                     else if k < 212 + l then 6
                     else if k < 243 + l then 7
                     else if k < 273 + l then 8
                     else if k < 304 + l then 9
                     else if k < 334 + l then 10
                     else 11)
            in (y, m + 1, k - MonthStart m l + 1))"
  unfolding toISODate_def MonthFromTime_def DateFromTime_def
    fields_of_day [OF assms] Let_def
  by (rule refl)

section \<open>Properties of the quarterly declaration\<close>

text \<open>
  The due date on any host, for every year and quarter. A host at UTC or west of it (by
  less than a day) stores the last day of the month after the quarter; a host east of UTC
  stores the day before it. Years 0 to 99 are read as 1900 to 1999 by the \<^verbatim>\<open>Date\<close>
  constructor.
\<close>

lemma quarterly_due_day:
  assumes "q \<in> {1, 2, 3, 4}"
  shows "MakeDay yr (q * 3 + 1) 0 =
           (if q = 4 then DayFromYear (yr + 1) + 30
            else DayFromYear yr + (if q = 1 then 119 else if q = 2 then 211 else 303)
                 + (if DaysInYear yr = 366 then 1 else 0))"
proof -
  from assms consider "q = 1" | "q = 2" | "q = 3" | "q = 4"
    by auto
  then show ?thesis
    by cases (simp_all add: MakeDay_def MonthStart_def Let_def)
qed


lemma quarterly_due_date_of_day:
  assumes "q \<in> {1, 2, 3, 4}" and "Day t = MakeDay yr (q * 3 + 1) 0 - e" and "e = 0 \<or> e = 1"
  shows "toISODate t =
           (if q = 1 then (yr, 4, 30 - e)
            else if q = 2 then (yr, 7, 31 - e)
            else if q = 3 then (yr, 10, 31 - e)
            else (yr + 1, 1, 31 - e))"
proof (cases "q = 4")
  case True
  with assms(2) quarterly_due_day [OF assms(1), of yr]
  have "Day t = DayFromYear (yr + 1) + (30 - e)"
    by simp
  moreover from assms(3) have "0 \<le> 30 - e" and "30 - e < DaysInYear (yr + 1)"
    using DaysInYear_cases [of "yr + 1"] by auto
  ultimately have "toISODate t = (yr + 1, 1, 30 - e + 1)"
    using assms(3) by (auto simp add: toISODate_of_day MonthStart_def Let_def)
  with True show ?thesis by simp
next
  case False
  define l :: int where "l = (if DaysInYear yr = 366 then 1 else 0)"
  define k :: int where "k = (if q = 1 then 119 else if q = 2 then 211 else 303) + l - e"
  from False assms(2) quarterly_due_day [OF assms(1), of yr]
  have "Day t = DayFromYear yr + k"
    by (simp add: k_def l_def)
  moreover from assms(3) have "0 \<le> k" and "k < DaysInYear yr"
    using DaysInYear_cases [of yr] by (auto simp add: k_def l_def)
  ultimately have iso: "toISODate t =
           (let m = (if k < 31 then 0
                     else if k < 59 + l then 1
                     else if k < 90 + l then 2
                     else if k < 120 + l then 3
                     else if k < 151 + l then 4
                     else if k < 181 + l then 5
                     else if k < 212 + l then 6
                     else if k < 243 + l then 7
                     else if k < 273 + l then 8
                     else if k < 304 + l then 9
                     else if k < 334 + l then 10
                     else 11)
            in (yr, m + 1, k - MonthStart m l + 1))"
    by (simp add: toISODate_of_day l_def Let_def)
  from False assms(1) consider "q = 1" | "q = 2" | "q = 3"
    by auto
  then show ?thesis
  proof cases
    case 1
    with assms(3) have "k = 119 + l - e" and "0 \<le> l" and "l \<le> 1" and "0 \<le> e" and "e \<le> 1"
      by (auto simp add: k_def l_def)
    with 1 show ?thesis
      unfolding iso by (simp add: MonthStart_def Let_def)
  next
    case 2
    with assms(3) have "k = 211 + l - e" and "0 \<le> l" and "l \<le> 1" and "0 \<le> e" and "e \<le> 1"
      by (auto simp add: k_def l_def)
    with 2 show ?thesis
      unfolding iso by (simp add: MonthStart_def Let_def)
  next
    case 3
    with assms(3) have "k = 303 + l - e" and "0 \<le> l" and "l \<le> 1" and "0 \<le> e" and "e \<le> 1"
      by (auto simp add: k_def l_def)
    with 3 show ?thesis
      unfolding iso by (simp add: MonthStart_def Let_def)
  qed
qed

lemma quarterly_due_date_west:
  assumes "- msPerDay < tza h" and "tza h \<le> 0" and "q \<in> {1, 2, 3, 4}"
  shows "due_date (saveQuarterlyDeclaration h u y q c) =
           (let yr = (if 0 \<le> y \<and> y \<le> 99 then 1900 + y else y)
            in if q = 1 then (yr, 4, 30)
               else if q = 2 then (yr, 7, 31)
               else if q = 3 then (yr, 10, 31)
               else (yr + 1, 1, 31))"
proof -
  define yr where "yr = (if 0 \<le> y \<and> y \<le> 99 then 1900 + y else y)"
  from assms(1,2) have "Day (new_Date h y (q * 3 + 1) 0) = MakeDay yr (q * 3 + 1) 0 - 0"
    by (simp add: new_Date_def UTC_def Day_of_local_midnight_west yr_def Let_def)
  with assms(3) have "toISODate (new_Date h y (q * 3 + 1) 0) =
           (if q = 1 then (yr, 4, 30 - 0)
            else if q = 2 then (yr, 7, 31 - 0)
            else if q = 3 then (yr, 10, 31 - 0)
            else (yr + 1, 1, 31 - 0))"
    by (intro quarterly_due_date_of_day) simp_all
  then show ?thesis
    by (simp add: saveQuarterlyDeclaration_def Let_def yr_def)
qed

lemma quarterly_due_date_east:
  assumes "0 < tza h" and "tza h \<le> msPerDay" and "q \<in> {1, 2, 3, 4}"
  shows "due_date (saveQuarterlyDeclaration h u y q c) =
           (let yr = (if 0 \<le> y \<and> y \<le> 99 then 1900 + y else y)
            in if q = 1 then (yr, 4, 29)
               else if q = 2 then (yr, 7, 30)
               else if q = 3 then (yr, 10, 30)
               else (yr + 1, 1, 30))"
proof -
  define yr where "yr = (if 0 \<le> y \<and> y \<le> 99 then 1900 + y else y)"
  from assms(1,2) have "Day (new_Date h y (q * 3 + 1) 0) = MakeDay yr (q * 3 + 1) 0 - 1"
    by (simp add: new_Date_def UTC_def Day_of_local_midnight_east yr_def Let_def)
  with assms(3) have "toISODate (new_Date h y (q * 3 + 1) 0) =
           (if q = 1 then (yr, 4, 30 - 1)
            else if q = 2 then (yr, 7, 31 - 1)
            else if q = 3 then (yr, 10, 31 - 1)
            else (yr + 1, 1, 31 - 1))"
    by (intro quarterly_due_date_of_day) simp_all
  then show ?thesis
    by (simp add: saveQuarterlyDeclaration_def Let_def yr_def)
qed

text \<open>
  On a host whose local time is UTC, the due dates of the first and the fourth quarter of
  2024 are 30 April 2024 and 31 January 2025.
\<close>

lemma due_date_at_utc_2024:
  "due_date (saveQuarterlyDeclaration \<lparr>now = t, tza = 0\<rparr> u 2024 1 c) = (2024, 4, 30)
   \<and> due_date (saveQuarterlyDeclaration \<lparr>now = t, tza = 0\<rparr> u 2024 4 c) = (2025, 1, 31)"
  by code_simp

text \<open>
  Claim C9. The due date of a quarterly declaration should be the last day of the month
  after the quarter. The source takes local midnight of that day and prints its date in
  UTC: on a host east of Greenwich (here two hours in April and one hour in January, as in
  France) that is the evening before, so the first quarter of 2024 is due on 29 April 2024
  and the fourth on 30 January 2025.
\<close>

theorem due_date_east_of_utc:
  "due_date (saveQuarterlyDeclaration \<lparr>now = t, tza = 7200000\<rparr> u 2024 1 c) = (2024, 4, 29)
   \<and> due_date (saveQuarterlyDeclaration \<lparr>now = t, tza = 3600000\<rparr> u 2024 4 c) = (2025, 1, 30)"
  by code_simp

end
